theory Spec2Isabelle
  imports Complex_Main "HOL-Library.AList"
begin

section \<open>The pattern DSL: grammar, transformer and parse endpoint\<close>

text \<open>
  The backend parses the pattern DSL with a Lark grammar, turns the parse tree into
  dictionaries with \<^verbatim>\<open>PatternTransformer\<close>, and answers \<^verbatim>\<open>POST /api/parse\<close>
  with a \<^verbatim>\<open>ParseResponse\<close>.  Strings are byte lists; a dictionary whose insertion
  order is visible is an association list updated with \<^const>\<open>AList.update\<close> (a new key
  goes to the end, an existing key keeps its place and takes the new value, as in Python).
  A timestamp is kept as the exact rational its decimal lexeme denotes.  Python's
  \<^verbatim>\<open>float()\<close> gives the double nearest to it: the rounding of a value in the range of
  the doubles is not modelled, and a value beyond the range, which \<^verbatim>\<open>float()\<close> reads
  as \<^verbatim>\<open>inf\<close>, is told by \<open>is_inf\<close>.
\<close>

subsection \<open>Character classes of the terminals\<close>

definition is_ws :: "char \<Rightarrow> bool" where
  \<comment> \<open>\<^verbatim>\<open>common.WS\<close> is \<^verbatim>\<open>/[ \t\f\r\n]/+\<close>\<close>
  "is_ws c = (c \<in> set [CHR '' '', CHR 0x09, CHR 0x0C, CHR 0x0D, CHR 0x0A])"

definition is_lower :: "char \<Rightarrow> bool" where
  "is_lower c = (c \<in> set ''abcdefghijklmnopqrstuvwxyz'')"

definition is_upper :: "char \<Rightarrow> bool" where
  "is_upper c = (c \<in> set ''ABCDEFGHIJKLMNOPQRSTUVWXYZ'')"

definition is_digit :: "char \<Rightarrow> bool" where
  "is_digit c = (c \<in> set ''0123456789'')"

definition is_alpha :: "char \<Rightarrow> bool" where
  \<comment> \<open>\<^verbatim>\<open>[A-Za-z]\<close>\<close>
  "is_alpha c = (is_upper c \<or> is_lower c)"

definition is_ident_start :: "char \<Rightarrow> bool" where
  \<comment> \<open>\<^verbatim>\<open>[a-zA-Z_]\<close>\<close>
  "is_ident_start c = (is_alpha c \<or> c = CHR ''_'')"

definition is_ident_char :: "char \<Rightarrow> bool" where
  \<comment> \<open>\<^verbatim>\<open>[a-zA-Z0-9_]\<close>\<close>
  "is_ident_char c = (is_ident_start c \<or> is_digit c)"

definition is_pitch_letter :: "char \<Rightarrow> bool" where
  \<comment> \<open>\<^verbatim>\<open>[A-G]\<close>\<close>
  "is_pitch_letter c = (c \<in> set ''ABCDEFG'')"

definition is_accidental :: "char \<Rightarrow> bool" where
  \<comment> \<open>\<^verbatim>\<open>[#b]\<close>\<close>
  "is_accidental c = (c = CHR ''#'' \<or> c = CHR ''b'')"

subsection \<open>Terminals\<close>

text \<open>
  \<^verbatim>\<open>Lark(pattern_grammar)\<close> uses the Earley parser with the dynamic lexer: at a
  position of the text every terminal the grammar expects there is matched on its own
  with its regular expression (the regular expression's one, greedy match), and a run
  of whitespace before a terminal or before the end of the text is skipped.  The
  terminals expected at one position never start with the same character
  (\<^verbatim>\<open>"import"\<close> or a block type; an instrument or \<^verbatim>\<open>"}"\<close>), so there is one way
  through the grammar and it is followed by recursive descent.  A terminal function
  takes the text at the position and returns the lexeme and the text after it.
\<close>

definition skip_ws :: "string \<Rightarrow> string" where
  "skip_ws s = dropWhile is_ws s"

definition literal :: "string \<Rightarrow> string \<Rightarrow> string option" where
  \<comment> \<open>an anonymous string terminal such as \<^verbatim>\<open>"import"\<close>, \<^verbatim>\<open>"{"\<close> or \<^verbatim>\<open>";"\<close>: the
      text after it; such tokens are filtered out of the tree\<close>
  "literal lit s =
     (if take (length lit) s = lit then Some (drop (length lit) s) else None)"

definition INSTRUMENT :: "string \<Rightarrow> (string \<times> string) option" where
  \<comment> \<open>\<^verbatim>\<open>/[a-zA-Z_][a-zA-Z0-9_]*/\<close>\<close>
  "INSTRUMENT s =
     (case s of
        [] \<Rightarrow> None
      | c # cs \<Rightarrow>
          if is_ident_start c
          then Some (c # takeWhile is_ident_char cs, dropWhile is_ident_char cs)
          else None)"

definition NOTE :: "string \<Rightarrow> (string \<times> string) option" where
  \<comment> \<open>\<^verbatim>\<open>/[A-G][#b]?[0-9]|[A-Za-z]+/\<close>: the first alternative is tried first, with the
      accidental and then without it; the second alternative is tried when it fails\<close>
  "NOTE s =
     (case s of
        [] \<Rightarrow> None
      | c # cs \<Rightarrow>
          (case (if is_pitch_letter c then
                   (case cs of
                      a # d # r \<Rightarrow>
                        if is_accidental a \<and> is_digit d then Some ([c, a, d], r)
                        else if is_digit a then Some ([c, a], d # r)
                        else None
                    | [a] \<Rightarrow> if is_digit a then Some ([c, a], []) else None
                    | [] \<Rightarrow> None)
                 else None) of
             Some m \<Rightarrow> Some m
           | None \<Rightarrow>
               if is_alpha c
               then Some (c # takeWhile is_alpha cs, dropWhile is_alpha cs)
               else None))"

definition TIMESTAMP :: "string \<Rightarrow> (string \<times> string) option" where
  \<comment> \<open>\<^verbatim>\<open>/[0-9]+(\.[0-9]+)?/\<close>\<close>
  "TIMESTAMP s =
     (let ds = takeWhile is_digit s; r = dropWhile is_digit s in
      if ds = [] then None
      else
        (case r of
           p # q \<Rightarrow>
             if p = CHR ''.'' \<and> takeWhile is_digit q \<noteq> []
             then Some (ds @ p # takeWhile is_digit q, dropWhile is_digit q)
             else Some (ds, r)
         | [] \<Rightarrow> Some (ds, r)))"

definition BLOCK_TYPE :: "string \<Rightarrow> (string \<times> string) option" where
  \<comment> \<open>\<^verbatim>\<open>"melody" | "rhythm" | "harmony" | "contrast"\<close>\<close>
  "BLOCK_TYPE s =
     (case literal ''melody'' s of Some r \<Rightarrow> Some (''melody'', r) | None \<Rightarrow>
      (case literal ''rhythm'' s of Some r \<Rightarrow> Some (''rhythm'', r) | None \<Rightarrow>
       (case literal ''harmony'' s of Some r \<Rightarrow> Some (''harmony'', r) | None \<Rightarrow>
        (case literal ''contrast'' s of Some r \<Rightarrow> Some (''contrast'', r) | None \<Rightarrow>
           None))))"

definition MODULE_NAME :: "string \<Rightarrow> (string \<times> string) option" where
  \<comment> \<open>\<^verbatim>\<open>/\"[a-zA-Z_][a-zA-Z0-9_]*\"/\<close>: the lexeme keeps its quotes\<close>
  "MODULE_NAME s =
     (case s of
        q # c # cs \<Rightarrow>
          if q = CHR 0x22 \<and> is_ident_start c then
            (case dropWhile is_ident_char cs of
               q' # r \<Rightarrow>
                 if q' = CHR 0x22
                 then Some (q # c # takeWhile is_ident_char cs @ [q'], r)
                 else None
             | [] \<Rightarrow> None)
          else None
      | _ \<Rightarrow> None)"

subsection \<open>Parse trees and the parser\<close>

datatype statement_tree = Statement string string string
  \<comment> \<open>the tokens INSTRUMENT, NOTE and TIMESTAMP of a \<^verbatim>\<open>statement\<close>\<close>

datatype tree =
    Import_statement string string
      \<comment> \<open>the tokens INSTRUMENT and MODULE_NAME\<close>
  | Pattern_block string "statement_tree list"
      \<comment> \<open>the token BLOCK_TYPE and the statements\<close>

datatype lark_error = UnexpectedCharacters | UnexpectedEOF

definition unexpected :: "string \<Rightarrow> lark_error" where
  \<comment> \<open>no expected terminal matches the text at the position (whitespace skipped):
      at the end of the text the parser raises \<^verbatim>\<open>UnexpectedEOF\<close>, before it
      \<^verbatim>\<open>UnexpectedCharacters\<close>\<close>
  "unexpected s = (if s = [] then UnexpectedEOF else UnexpectedCharacters)"

definition parse_statement :: "string \<Rightarrow> lark_error + statement_tree \<times> string" where
  \<comment> \<open>\<^verbatim>\<open>statement: INSTRUMENT NOTE TIMESTAMP ";"\<close>\<close>
  "parse_statement s =
     (case INSTRUMENT (skip_ws s) of
        None \<Rightarrow> Inl (unexpected (skip_ws s))
      | Some (i, s1) \<Rightarrow>
     (case NOTE (skip_ws s1) of
        None \<Rightarrow> Inl (unexpected (skip_ws s1))
      | Some (n, s2) \<Rightarrow>
     (case TIMESTAMP (skip_ws s2) of
        None \<Rightarrow> Inl (unexpected (skip_ws s2))
      | Some (t, s3) \<Rightarrow>
     (case literal '';'' (skip_ws s3) of
        None \<Rightarrow> Inl (unexpected (skip_ws s3))
      | Some s4 \<Rightarrow> Inr (Statement i n t, s4)))))"

function parse_statements :: "string \<Rightarrow> lark_error + statement_tree list \<times> string" where
  \<comment> \<open>\<^verbatim>\<open>statement* "}"\<close>\<close>
  "parse_statements s =
     (case literal ''}'' (skip_ws s) of
        Some r \<Rightarrow> Inr ([], r)
      | None \<Rightarrow>
          (case parse_statement s of
             Inl e \<Rightarrow> Inl e
           | Inr (st, s') \<Rightarrow>
               (case parse_statements s' of
                  Inl e \<Rightarrow> Inl e
                | Inr (sts, r) \<Rightarrow> Inr (st # sts, r))))"
  by pat_completeness auto

definition parse_pattern_block :: "string \<Rightarrow> lark_error + tree \<times> string" where
  \<comment> \<open>\<^verbatim>\<open>pattern_block: BLOCK_TYPE "{" statement* "}"\<close>\<close>
  "parse_pattern_block s =
     (case BLOCK_TYPE (skip_ws s) of
        None \<Rightarrow> Inl (unexpected (skip_ws s))
      | Some (b, s1) \<Rightarrow>
     (case literal ''{'' (skip_ws s1) of
        None \<Rightarrow> Inl (unexpected (skip_ws s1))
      | Some s2 \<Rightarrow>
     (case parse_statements s2 of
        Inl e \<Rightarrow> Inl e
      | Inr (sts, r) \<Rightarrow> Inr (Pattern_block b sts, r))))"

definition parse_import_statement :: "string \<Rightarrow> lark_error + tree \<times> string" where
  \<comment> \<open>\<^verbatim>\<open>import_statement: "import" INSTRUMENT "from" MODULE_NAME ";"\<close>\<close>
  "parse_import_statement s =
     (case literal ''import'' (skip_ws s) of
        None \<Rightarrow> Inl (unexpected (skip_ws s))
      | Some s1 \<Rightarrow>
     (case INSTRUMENT (skip_ws s1) of
        None \<Rightarrow> Inl (unexpected (skip_ws s1))
      | Some (i, s2) \<Rightarrow>
     (case literal ''from'' (skip_ws s2) of
        None \<Rightarrow> Inl (unexpected (skip_ws s2))
      | Some s3 \<Rightarrow>
     (case MODULE_NAME (skip_ws s3) of
        None \<Rightarrow> Inl (unexpected (skip_ws s3))
      | Some (m, s4) \<Rightarrow>
     (case literal '';'' (skip_ws s4) of
        None \<Rightarrow> Inl (unexpected (skip_ws s4))
      | Some s5 \<Rightarrow> Inr (Import_statement i m, s5))))))"

function parse_imports :: "string \<Rightarrow> lark_error + tree list \<times> string" where
  \<comment> \<open>\<^verbatim>\<open>import_statement*\<close>: another import follows exactly when \<^verbatim>\<open>"import"\<close>
      matches at the position\<close>
  "parse_imports s =
     (case literal ''import'' (skip_ws s) of
        None \<Rightarrow> Inr ([], s)
      | Some _ \<Rightarrow>
          (case parse_import_statement s of
             Inl e \<Rightarrow> Inl e
           | Inr (t, s') \<Rightarrow>
               (case parse_imports s' of
                  Inl e \<Rightarrow> Inl e
                | Inr (ts, r) \<Rightarrow> Inr (t # ts, r))))"
  by pat_completeness auto

function parse_pattern_blocks :: "string \<Rightarrow> lark_error + tree list" where
  \<comment> \<open>\<^verbatim>\<open>pattern_block+\<close> up to the end of the text: one block at least, and after a
      block either only whitespace is left or another block follows\<close>
  "parse_pattern_blocks s =
     (case parse_pattern_block s of
        Inl e \<Rightarrow> Inl e
      | Inr (b, s') \<Rightarrow>
          if skip_ws s' = [] then Inr [b]
          else
            (case parse_pattern_blocks s' of
               Inl e \<Rightarrow> Inl e
             | Inr bs \<Rightarrow> Inr (b # bs)))"
  by pat_completeness auto

definition pattern_parser :: "string \<Rightarrow> lark_error + tree list" where
  \<comment> \<open>\<^verbatim>\<open>pattern_parser.parse\<close> for \<^verbatim>\<open>start: import_statement* pattern_block+\<close>: the
      children of the \<^verbatim>\<open>start\<close> node, or the exception raised\<close>
  "pattern_parser s =
     (case parse_imports s of
        Inl e \<Rightarrow> Inl e
      | Inr (is, s') \<Rightarrow>
          (case parse_pattern_blocks s' of
             Inl e \<Rightarrow> Inl e
           | Inr bs \<Rightarrow> Inr (is @ bs)))"

subsection \<open>PatternTransformer\<close>

record stmt_dict =
  instrument :: string
  note' :: string
  time :: rat
  \<comment> \<open>the keys \<^verbatim>\<open>"instrument"\<close>, \<^verbatim>\<open>"note"\<close> and \<^verbatim>\<open>"time"\<close> of the dictionary a statement
      becomes\<close>

record import_dict =
  import_instrument :: string
  module :: string

datatype 'e item =
    Import_item import_dict
      \<comment> \<open>a dictionary with the key \<^verbatim>\<open>"import"\<close>\<close>
  | Block_item string "'e list"
      \<comment> \<open>a dictionary with the keys \<^verbatim>\<open>"block_type"\<close> and \<^verbatim>\<open>"statements"\<close>\<close>

record 'e pattern_dict =
  imports' :: "import_dict list"
  patterns :: "(string \<times> 'e list) list"
  \<comment> \<open>the keys \<^verbatim>\<open>"imports"\<close> and \<^verbatim>\<open>"patterns"\<close>; \<open>'e\<close> is the type of an event\<close>

definition digit_value :: "char \<Rightarrow> nat" where
  "digit_value c = of_char c - 48"

definition digits_value :: "string \<Rightarrow> nat" where
  "digits_value ds = foldl (\<lambda>n c. 10 * n + digit_value c) 0 ds"

definition float :: "string \<Rightarrow> rat" where
  \<comment> \<open>\<^verbatim>\<open>float(items[2])\<close> on a TIMESTAMP lexeme: the integer part and, after the
      point, the fraction; the exact value, of which Python keeps the nearest double\<close>
  "float s =
     (let i = takeWhile is_digit s; f = drop (Suc (length i)) s in
      of_nat (digits_value i) + of_nat (digits_value f) / 10 ^ length f)"

definition statement :: "statement_tree \<Rightarrow> stmt_dict" where
  "statement t =
     (case t of Statement i n ts \<Rightarrow> \<lparr>instrument = i, note' = n, time = float ts\<rparr>)"

definition import_statement :: "string \<Rightarrow> string \<Rightarrow> stmt_dict item" where
  "import_statement i m = Import_item \<lparr>import_instrument = i, module = m\<rparr>"

definition pattern_block :: "string \<Rightarrow> stmt_dict list \<Rightarrow> stmt_dict item" where
  \<comment> \<open>\<^verbatim>\<open>block_type = items[0]\<close>, \<^verbatim>\<open>statements = items[1:]\<close>: the statements as they
      come, in the order of the source\<close>
  "pattern_block block_type statements = Block_item block_type statements"

fun start_loop :: "'e item list \<Rightarrow> 'e pattern_dict \<Rightarrow> 'e pattern_dict" where
  \<comment> \<open>the \<^verbatim>\<open>for item in items\<close> loop of \<^verbatim>\<open>start\<close>\<close>
  "start_loop [] result = result"
| "start_loop (Import_item i # items) result =
     start_loop items (result\<lparr>imports' := imports' result @ [i]\<rparr>)"
| "start_loop (Block_item b sts # items) result =
     start_loop items (result\<lparr>patterns := AList.update b sts (patterns result)\<rparr>)"

definition start :: "'e item list \<Rightarrow> 'e pattern_dict" where
  "start items = start_loop items \<lparr>imports' = [], patterns = []\<rparr>"

fun transform_child :: "tree \<Rightarrow> stmt_dict item" where
  "transform_child (Import_statement i m) = import_statement i m"
| "transform_child (Pattern_block b sts) = pattern_block b (map statement sts)"

definition transform :: "tree list \<Rightarrow> stmt_dict pattern_dict" where
  \<comment> \<open>\<^verbatim>\<open>transformer.transform(parse_tree)\<close>: the callbacks bottom-up\<close>
  "transform parse_tree = start (map transform_child parse_tree)"

subsection \<open>Data models and the parse endpoint\<close>

record NoteEvent = stmt_dict +
  velocity :: rat
  duration :: rat

type_synonym Pattern = "NoteEvent pattern_dict"

record 'e response =
  success :: bool
  pattern :: "'e pattern_dict option"
  error :: "lark_error option"
    \<comment> \<open>\<^verbatim>\<open>str(e)\<close>, kept as the exception it is the message of\<close>

type_synonym ParseResponse = "NoteEvent response"

definition parse_pattern :: "string \<Rightarrow> stmt_dict response" where
  \<comment> \<open>the body of the endpoint: every exception of the \<^verbatim>\<open>try\<close> block is caught by
      \<^verbatim>\<open>except Exception\<close>\<close>
  "parse_pattern pattern_code =
     (case pattern_parser pattern_code of
        Inr parse_tree \<Rightarrow>
          \<lparr>success = True, pattern = Some (transform parse_tree), error = None\<rparr>
      | Inl e \<Rightarrow>
          \<lparr>success = False, pattern = None, error = Some e\<rparr>)"

definition NoteEvent_model :: "stmt_dict \<Rightarrow> NoteEvent" where
  \<comment> \<open>the dictionary of a statement read as a \<^verbatim>\<open>NoteEvent\<close>: the fields it lacks take
      the defaults of the model\<close>
  "NoteEvent_model d =
     \<lparr>instrument = instrument d, note' = note' d, time = time d,
      velocity = 1, duration = 1 / 2\<rparr>"

definition Pattern_model :: "stmt_dict pattern_dict \<Rightarrow> Pattern" where
  "Pattern_model d =
     \<lparr>imports' = imports' d,
      patterns = map (\<lambda>(b, sts). (b, map NoteEvent_model sts)) (patterns d)\<rparr>"

definition ParseResponse_model :: "stmt_dict response \<Rightarrow> ParseResponse" where
  "ParseResponse_model r =
     \<lparr>success = success r, pattern = map_option Pattern_model (pattern r),
      error = error r\<rparr>"

definition api_parse :: "string \<Rightarrow> ParseResponse" where
  \<comment> \<open>\<^verbatim>\<open>@app.post("/api/parse", response_model=ParseResponse)\<close>: what the endpoint
      returns, as the response model\<close>
  "api_parse pattern_code = ParseResponse_model (parse_pattern pattern_code)"

definition is_inf :: "rat \<Rightarrow> bool" where
  \<comment> \<open>the double nearest to the value is \<^verbatim>\<open>inf\<close>: the value is at least halfway from the
      greatest double, \<open>2 ^ 1024 - 2 ^ 971\<close>, to \<open>2 ^ 1024\<close>; \<^verbatim>\<open>float()\<close> raises nothing
      and returns \<^verbatim>\<open>inf\<close> there\<close>
  "is_inf v = (2 ^ 1024 - 2 ^ 970 \<le> v)"

datatype py_error = ValueError

definition JSONResponse_render :: "ParseResponse \<Rightarrow> py_error + ParseResponse" where
  \<comment> \<open>the framework renders what the endpoint has returned as JSON, after the \<^verbatim>\<open>try\<close>
      block is left: JSON has no \<^verbatim>\<open>inf\<close>, and the encoder (\<^verbatim>\<open>allow_nan=False\<close>) raises
      on one; the caller then gets an internal server error and no
      \<^verbatim>\<open>ParseResponse\<close>\<close>
  "JSONResponse_render r =
     (case pattern r of
        None \<Rightarrow> Inr r
      | Some d \<Rightarrow>
          if list_ex (\<lambda>(b, es). list_ex (\<lambda>e. is_inf (time e)) es) (patterns d)
          then Inl ValueError
          else Inr r)"

definition post_api_parse :: "string \<Rightarrow> py_error + ParseResponse" where
  \<comment> \<open>what a caller of \<^verbatim>\<open>POST /api/parse\<close> receives\<close>
  "post_api_parse pattern_code = JSONResponse_render (api_parse pattern_code)"

section \<open>The audio engine\<close>

text \<open>
  \<^verbatim>\<open>audioEngine.js\<close> keeps its state in module variables (\<^verbatim>\<open>instruments\<close>,
  \<^verbatim>\<open>eq\<close>, \<^verbatim>\<open>currentPattern\<close>, \<^verbatim>\<open>patternParts\<close>) and in \<^verbatim>\<open>Tone.Transport\<close>.
  The state is a record passed through every function; what a function sends to the
  console or to a sampler is returned as a list of effects.  Every function body is a
  \<^verbatim>\<open>try\<close> block whose handler logs the error, so an exception inside it is an
  effect, not a result.
\<close>

subsection \<open>Values of Tone.js\<close>

datatype tone_time = Number rat | Notation string
  \<comment> \<open>a time of Tone.js: a number, or a notation such as \<^verbatim>\<open>"8n"\<close> or \<^verbatim>\<open>"4m"\<close>\<close>

datatype sampler = Sampler string
  \<comment> \<open>a \<^verbatim>\<open>Tone.Sampler\<close>, named by its \<^verbatim>\<open>baseUrl\<close>\<close>

datatype eq3 = EQ3 rat rat rat

datatype playback = started | stopped | paused

record transport =
  state :: playback
  position :: rat
  bpm :: rat
  loop :: bool
  loopStart :: tone_time
  loopEnd :: tone_time

definition Transport_start :: "transport \<Rightarrow> transport" where
  \<comment> \<open>\<^verbatim>\<open>Tone.Transport.start()\<close>: playback goes on from the current position\<close>
  "Transport_start T = T\<lparr>state := started\<rparr>"

definition Transport_stop :: "transport \<Rightarrow> transport" where
  \<comment> \<open>\<^verbatim>\<open>Tone.Transport.stop()\<close>: playback ends and the position returns to the start\<close>
  "Transport_stop T = T\<lparr>state := stopped, position := 0\<rparr>"

definition Transport_pause :: "transport \<Rightarrow> transport" where
  \<comment> \<open>\<^verbatim>\<open>Tone.Transport.pause()\<close>: a started transport holds its position\<close>
  "Transport_pause T = (if state T = started then T\<lparr>state := paused\<rparr> else T)"

record part =
  part_events :: "(rat \<times> NoteEvent) list"
  part_start :: "rat option"
  part_loop :: bool
  part_loopEnd :: tone_time

definition new_Part :: "(rat \<times> NoteEvent) list \<Rightarrow> part" where
  \<comment> \<open>\<^verbatim>\<open>new Tone.Part(callback, events)\<close>: not started, not looping, a loop of one
      measure; the callback is \<open>part_callback\<close> below, the same for every part\<close>
  "new_Part evs =
     \<lparr>part_events = evs, part_start = None, part_loop = False,
      part_loopEnd = Notation ''1m''\<rparr>"

subsection \<open>The state of the module\<close>

record instruments_obj =
  piano :: "sampler option"
  synth :: "sampler option"
  guitar :: "sampler option"

record eq_obj =
  low :: "eq3 option"
  mid :: "eq3 option"
  high :: "eq3 option"

record engine =
  instruments :: instruments_obj
  eq :: eq_obj
  currentPattern :: "Pattern option"
  patternParts :: "(string \<times> part) list"
  Transport :: transport

definition initial_engine :: engine where
  \<comment> \<open>the module as loaded, with the transport of Tone.js as it is created: it reads
      the loop end 0 until one is set\<close>
  "initial_engine =
     \<lparr>instruments = \<lparr>piano = None, synth = None, guitar = None\<rparr>,
      eq = \<lparr>low = None, mid = None, high = None\<rparr>,
      currentPattern = None,
      patternParts = [],
      Transport =
        \<lparr>state = stopped, position = 0, bpm = 120, loop = False,
         loopStart = Number 0, loopEnd = Number 0\<rparr>\<rparr>"

definition octave :: "string \<Rightarrow> bool" where
  \<comment> \<open>\<^verbatim>\<open>-?[0-9]+$\<close>\<close>
  "octave s =
     (case s of
        [] \<Rightarrow> False
      | c # cs \<Rightarrow>
          if c = CHR ''-'' then cs \<noteq> [] \<and> list_all is_digit cs
          else list_all is_digit (c # cs))"

definition isNote :: "string \<Rightarrow> bool" where
  \<comment> \<open>the test of Tone.js for a note name, \<^verbatim>\<open>/^[a-g]{1}(b|#|x|bb)?-?[0-9]+$/i\<close>\<close>
  "isNote s =
     (case s of
        [] \<Rightarrow> False
      | c # cs \<Rightarrow>
          c \<in> set ''abcdefgABCDEFG'' \<and>
          list_ex (\<lambda>acc. take (length acc) cs = acc \<and> octave (drop (length acc) cs))
            [[], ''b'', ''B'', ''#'', ''x'', ''X'', ''bb'', ''bB'', ''Bb'', ''BB''])"

definition parseInt_is_number :: "string \<Rightarrow> bool" where
  \<comment> \<open>\<^verbatim>\<open>parseInt(s, 10)\<close> is a number and not \<^verbatim>\<open>NaN\<close>: after white space and a sign
      there is a digit\<close>
  "parseInt_is_number s =
     (let t = dropWhile
                (\<lambda>c. c \<in> set [CHR '' '', CHR 0x09, CHR 0x0A, CHR 0x0B, CHR 0x0C, CHR 0x0D]) s;
          u = (case t of
                 [] \<Rightarrow> []
               | c # cs \<Rightarrow> if c = CHR ''+'' \<or> c = CHR ''-'' then cs else c # cs)
      in case u of [] \<Rightarrow> False | d # _ \<Rightarrow> is_digit d)"

datatype tone_error = url_key_error string
  \<comment> \<open>the error of a failed assertion in the constructor of a sampler: the key of
      \<^verbatim>\<open>urls\<close> that is neither a note nor a MIDI pitch\<close>

fun new_Sampler :: "string list \<Rightarrow> string \<Rightarrow> tone_error + sampler" where
  \<comment> \<open>\<^verbatim>\<open>new Tone.Sampler({urls, baseUrl})\<close>, from the keys of \<^verbatim>\<open>urls\<close>: the constructor
      asserts of every key that it is a note or a number\<close>
  "new_Sampler [] baseUrl = Inr (Sampler baseUrl)"
| "new_Sampler (key # keys) baseUrl =
     (if isNote key \<or> parseInt_is_number key then new_Sampler keys baseUrl
      else Inl (url_key_error key))"

definition initAudio :: "engine \<Rightarrow> (tone_error + bool) \<times> engine" where
  \<comment> \<open>the path on which \<^verbatim>\<open>Tone.start()\<close> resolves.  The result is \<^verbatim>\<open>true\<close> or the
      error thrown again by the handler, with the state as the statements before the
      error have left it; the tempo and the loop of the transport are set last\<close>
  "initAudio s =
     (let s1 = s\<lparr>eq := \<lparr>low = Some (EQ3 (- 1) 0 0), mid = Some (EQ3 0 0 0),
                          high = Some (EQ3 0 0 (- 1))\<rparr>\<rparr>
      in
      case new_Sampler [''C4'', ''E4'', ''G4''] ''/instruments/piano/'' of
        Inl e \<Rightarrow> (Inl e, s1)
      | Inr p \<Rightarrow>
     (let s2 = s1\<lparr>instruments := (instruments s1)\<lparr>piano := Some p\<rparr>\<rparr>
      in
      case new_Sampler [''Kick'', ''Snare'', ''HiHat''] ''/instruments/synth/'' of
        Inl e \<Rightarrow> (Inl e, s2)
      | Inr sy \<Rightarrow>
     (let s3 = s2\<lparr>instruments := (instruments s2)\<lparr>synth := Some sy\<rparr>\<rparr>
      in
      case new_Sampler [''E2'', ''A2'', ''D3''] ''/instruments/guitar/'' of
        Inl e \<Rightarrow> (Inl e, s3)
      | Inr g \<Rightarrow>
          (Inr True,
           s3\<lparr>instruments := (instruments s3)\<lparr>guitar := Some g\<rparr>,
              Transport :=
                (Transport s3)\<lparr>bpm := 120, loop := True, loopStart := Number 0,
                                 loopEnd := Notation ''4m''\<rparr>\<rparr>))))"

subsection \<open>Reading an instrument\<close>

datatype js_value =
    Undefined
  | Null
  | Sampler_object sampler
  | Inherited
      \<comment> \<open>a member of \<^verbatim>\<open>Object.prototype\<close>: a function, or for \<^verbatim>\<open>__proto__\<close> the
          prototype itself\<close>

definition Object_prototype :: "string list" where
  \<comment> \<open>the names every object literal inherits\<close>
  "Object_prototype =
     [''constructor'', ''hasOwnProperty'', ''isPrototypeOf'', ''propertyIsEnumerable'',
      ''toLocaleString'', ''toString'', ''valueOf'', ''__proto__'',
      ''__defineGetter__'', ''__defineSetter__'', ''__lookupGetter__'',
      ''__lookupSetter__'']"

definition own_value :: "sampler option \<Rightarrow> js_value" where
  "own_value v = (case v of None \<Rightarrow> Null | Some smp \<Rightarrow> Sampler_object smp)"

definition get_instrument :: "instruments_obj \<Rightarrow> string \<Rightarrow> js_value" where
  \<comment> \<open>\<^verbatim>\<open>instruments[name]\<close>: the object literal has the three keys; any other name
      is looked up in its prototype\<close>
  "get_instrument ins name =
     (if name = ''piano'' then own_value (piano ins)
      else if name = ''synth'' then own_value (synth ins)
      else if name = ''guitar'' then own_value (guitar ins)
      else if name \<in> set Object_prototype then Inherited
      else Undefined)"

definition truthy :: "js_value \<Rightarrow> bool" where
  "truthy v = (v \<noteq> Undefined \<and> v \<noteq> Null)"

datatype js_error = TypeError

datatype effect =
    console_error string
  | triggerAttackRelease sampler string tone_time "rat option" "rat option"
      \<comment> \<open>the sampler, then the arguments: note, duration, time, velocity\<close>

definition call_triggerAttackRelease ::
  "js_value \<Rightarrow> string \<Rightarrow> tone_time \<Rightarrow> rat option \<Rightarrow> rat option \<Rightarrow> js_error + effect" where
  \<comment> \<open>\<^verbatim>\<open>v.triggerAttackRelease(...)\<close>: only a sampler has the method; on any other
      truthy value the call is a call of \<^verbatim>\<open>undefined\<close> and throws\<close>
  "call_triggerAttackRelease v n d t vel =
     (case v of
        Sampler_object smp \<Rightarrow> Inr (triggerAttackRelease smp n d t vel)
      | _ \<Rightarrow> Inl TypeError)"

subsection \<open>playNote\<close>

definition playNote :: "string \<Rightarrow> string \<Rightarrow> engine \<Rightarrow> effect list \<times> engine" where
  "playNote instrumentName note s =
     (if \<not> truthy (get_instrument (instruments s) instrumentName)
      then ([console_error (''Instrument '' @ instrumentName @ '' not found'')], s)
      else
        (case call_triggerAttackRelease (get_instrument (instruments s) instrumentName)
                note (Notation ''8n'') None None of
           Inr e \<Rightarrow> ([e], s)
         | Inl err \<Rightarrow>
             ([console_error
                 (''Error playing note '' @ note @ '' on '' @ instrumentName @ '':'')], s)))"

subsection \<open>stopPattern, playPattern, pausePattern\<close>

definition stopPattern :: "engine \<Rightarrow> engine" where
  \<comment> \<open>every part is disposed of and dropped with the map that held it\<close>
  "stopPattern s =
     s\<lparr>Transport := (Transport_stop (Transport s))\<lparr>position := 0\<rparr>,
        patternParts := [],
        currentPattern := None\<rparr>"

definition part_callback :: "instruments_obj \<Rightarrow> rat \<Rightarrow> NoteEvent \<Rightarrow> js_error + effect" where
  \<comment> \<open>the callback given to \<^verbatim>\<open>new Tone.Part\<close>; \<^verbatim>\<open>note.duration || "8n"\<close> and
      \<^verbatim>\<open>note.velocity || 1\<close> replace a zero\<close>
  "part_callback ins t note =
     (if \<not> truthy (get_instrument ins (instrument note))
      then Inr (console_error (''Instrument '' @ instrument note @ '' not found''))
      else
        call_triggerAttackRelease (get_instrument ins (instrument note))
          (note' note)
          (if duration note = 0 then Notation ''8n'' else Number (duration note))
          (Some t)
          (Some (if velocity note = 0 then 1 else velocity note)))"

fun make_parts :: "(string \<times> NoteEvent list) list \<Rightarrow> (string \<times> part) list \<Rightarrow> (string \<times> part) list" where
  \<comment> \<open>\<^verbatim>\<open>Object.keys(pattern.patterns).forEach\<close>: for each key (the keys of an object
      are distinct) and the notes stored with it, a part that is started at 0 and loops
      with the loop end 16\<close>
  "make_parts [] parts = parts"
| "make_parts ((type, notes) # rest) parts =
     make_parts rest
       (AList.update type
          ((new_Part (map (\<lambda>note. (time note, note)) notes))
             \<lparr>part_start := Some 0, part_loop := True, part_loopEnd := Number 16\<rparr>)
          parts)"

definition playPattern :: "Pattern \<Rightarrow> engine \<Rightarrow> engine" where
  "playPattern pat s =
     (let s1 = stopPattern s;
          s2 = s1\<lparr>currentPattern := Some pat\<rparr>;
          s3 = s2\<lparr>patternParts := make_parts (patterns pat) (patternParts s2)\<rparr>
      in s3\<lparr>Transport := Transport_start (Transport s3)\<rparr>)"

definition pausePattern :: "engine \<Rightarrow> engine" where
  "pausePattern s = s\<lparr>Transport := Transport_pause (Transport s)\<rparr>"

fun fire :: "instruments_obj \<Rightarrow> (rat \<times> NoteEvent) list \<Rightarrow> effect list \<times> js_error option" where
  \<comment> \<open>the transport invoking the callback for the events that are due at one tick, one
      after the other: the effects so far, and the exception if a callback throws
      (nothing in the engine catches it, so the events of the tick after it are not
      reached)\<close>
  "fire ins [] = ([], None)"
| "fire ins ((t, note) # evs) =
     (case part_callback ins t note of
        Inl err \<Rightarrow> ([], Some err)
      | Inr e \<Rightarrow> (case fire ins evs of (es, r) \<Rightarrow> (e # es, r)))"

subsection \<open>The transport buttons\<close>

datatype time_value = Time rat | Updater
  \<comment> \<open>what \<^verbatim>\<open>setCurrentTime\<close> has stored: the store keeps the argument as it is, a
      number from \<^verbatim>\<open>handleStop\<close>, the updating function from the interval of the
      component\<close>

record store =
  parsedPattern :: "Pattern option"
  isPlaying :: bool
  currentTime :: time_value

definition handlePlay :: "store \<times> engine \<Rightarrow> store \<times> engine" where
  "handlePlay = (\<lambda>(ui, s).
     (case parsedPattern ui of
        Some p \<Rightarrow> (ui\<lparr>isPlaying := True\<rparr>, playPattern p s)
      | None \<Rightarrow> (ui, s)))"

definition handleStop :: "store \<times> engine \<Rightarrow> store \<times> engine" where
  "handleStop = (\<lambda>(ui, s). (ui\<lparr>isPlaying := False, currentTime := Time 0\<rparr>, stopPattern s))"

definition handlePause :: "store \<times> engine \<Rightarrow> store \<times> engine" where
  "handlePause = (\<lambda>(ui, s). (ui\<lparr>isPlaying := False\<rparr>, pausePattern s))"

section \<open>Properties stated by the specification\<close>

fun adjacent_sorted :: "NoteEvent list \<Rightarrow> bool" where
  \<comment> \<open>for all adjacent pairs \<open>(a, b)\<close>: \<open>a.time \<le> b.time\<close>\<close>
  "adjacent_sorted (a # b # es) = (time a \<le> time b \<and> adjacent_sorted (b # es))"
| "adjacent_sorted _ = True"

definition tracks_sorted :: "Pattern \<Rightarrow> bool" where
  "tracks_sorted doc = list_all (\<lambda>(b, es). adjacent_sorted es) (patterns doc)"

definition spec_loop_length :: "Pattern \<Rightarrow> rat" where
  \<comment> \<open>the loop length in the words of the specification: the maximum of
      \<open>time + duration\<close> over all tracks, or 16 if the document has no event\<close>
  "spec_loop_length doc =
     (let ends = map (\<lambda>e. time e + duration e) (concat (map snd (patterns doc)))
      in if ends = [] then 16 else Max (set ends))"

subsection \<open>Inputs of the examples\<close>

definition example_pattern :: Pattern where
  \<comment> \<open>the document of \<^verbatim>\<open>melody { piano C4 0; piano E4 0.5; piano G4 1.0; }\<close>\<close>
  "example_pattern =
     \<lparr>imports' = [],
      patterns =
        [(''melody'',
          [\<lparr>instrument = ''piano'', note' = ''C4'', time = 0,
            velocity = 1, duration = 1 / 2\<rparr>,
           \<lparr>instrument = ''piano'', note' = ''E4'', time = 1 / 2,
            velocity = 1, duration = 1 / 2\<rparr>,
           \<lparr>instrument = ''piano'', note' = ''G4'', time = 1,
            velocity = 1, duration = 1 / 2\<rparr>])]\<rparr>"

definition ready_engine :: engine where
  \<comment> \<open>the engine once \<^verbatim>\<open>initAudio\<close> has run: the piano is there, the constructor of
      the second sampler has thrown\<close>
  "ready_engine = snd (initAudio initial_engine)"

definition playing_engine :: "rat \<Rightarrow> engine" where
  \<comment> \<open>the engine playing the example, when the clock of the transport has brought the
      position to \<open>p\<close>\<close>
  "playing_engine p =
     (let s = playPattern example_pattern ready_engine
      in s\<lparr>Transport := (Transport s)\<lparr>position := p\<rparr>\<rparr>)"

definition playing_store :: store where
  \<comment> \<open>the store of the interface at that moment\<close>
  "playing_store =
     \<lparr>parsedPattern = Some example_pattern, isPlaying = True, currentTime = Updater\<rparr>"

section \<open>Termination of the parser\<close>

text \<open>
  A statement, an import and a block each consume at least one character, so each loop
  of the grammar (\<^verbatim>\<open>statement*\<close>, \<^verbatim>\<open>import_statement*\<close>, \<^verbatim>\<open>pattern_block+\<close>) ends:
  the parser returns a tree or an exception on every text.
\<close>

lemma skip_ws_le: "length (skip_ws t) \<le> length t"
  by (simp add: skip_ws_def length_dropWhile_le)

lemma literal_le: "literal l t = Some r \<Longrightarrow> length r \<le> length t"
  by (auto simp: literal_def split: if_splits)

lemma literal_less: "literal (c # l) t = Some r \<Longrightarrow> length r < length t"
  by (cases t) (auto simp: literal_def split: if_splits)

lemma dropWhile_Cons_shorter: "dropWhile P xs = y # ys \<Longrightarrow> length ys < length xs"
  using length_dropWhile_le [of P xs] by simp

lemma INSTRUMENT_less: "INSTRUMENT t = Some (i, r) \<Longrightarrow> length r < length t"
  by (auto simp: INSTRUMENT_def less_Suc_eq_le length_dropWhile_le split: list.splits if_splits)

lemma NOTE_le: "NOTE t = Some (n, r) \<Longrightarrow> length r \<le> length t"
  by (auto simp: NOTE_def le_SucI length_dropWhile_le split: list.splits if_splits option.splits)

lemma TIMESTAMP_le:
  assumes "TIMESTAMP t = Some (n, r)"
  shows "length r \<le> length t"
proof -
  have "r = dropWhile is_digit t
      \<or> (\<exists>p q. dropWhile is_digit t = p # q \<and> r = dropWhile is_digit q)"
    using assms by (auto simp: TIMESTAMP_def Let_def split: if_splits list.splits)
  then show ?thesis
  proof
    assume "r = dropWhile is_digit t"
    then show ?thesis by (simp add: length_dropWhile_le)
  next
    assume "\<exists>p q. dropWhile is_digit t = p # q \<and> r = dropWhile is_digit q"
    then obtain p q where pq: "dropWhile is_digit t = p # q" and rq: "r = dropWhile is_digit q"
      by blast
    have "length r \<le> length q" using rq by (simp add: length_dropWhile_le)
    also have "\<dots> < length t" using pq by (rule dropWhile_Cons_shorter)
    finally show ?thesis by simp
  qed
qed

lemma MODULE_NAME_le: "MODULE_NAME t = Some (m, r) \<Longrightarrow> length r \<le> length t"
  by (auto simp: MODULE_NAME_def split: list.splits if_splits dest!: dropWhile_Cons_shorter)

lemma BLOCK_TYPE_less: "BLOCK_TYPE t = Some (b, r) \<Longrightarrow> length r < length t"
  by (auto simp: BLOCK_TYPE_def split: option.splits dest: literal_less)

lemma parse_statement_shorter:
  assumes "parse_statement s = Inr (st, s')"
  shows "length s' < length s"
proof -
  from assms obtain i s1 n s2 t s3 where
    a: "INSTRUMENT (skip_ws s) = Some (i, s1)" and
    b: "NOTE (skip_ws s1) = Some (n, s2)" and
    c: "TIMESTAMP (skip_ws s2) = Some (t, s3)" and
    d: "literal '';'' (skip_ws s3) = Some s'"
    by (auto simp: parse_statement_def split: option.splits)
  have "length s' \<le> length (skip_ws s3)" using d by (rule literal_le)
  also have "\<dots> \<le> length s3" by (rule skip_ws_le)
  also have "\<dots> \<le> length (skip_ws s2)" using c by (rule TIMESTAMP_le)
  also have "\<dots> \<le> length s2" by (rule skip_ws_le)
  also have "\<dots> \<le> length (skip_ws s1)" using b by (rule NOTE_le)
  also have "\<dots> \<le> length s1" by (rule skip_ws_le)
  also have "\<dots> < length (skip_ws s)" using a by (rule INSTRUMENT_less)
  also have "\<dots> \<le> length s" by (rule skip_ws_le)
  finally show ?thesis .
qed

termination parse_statements
  by (relation "measure length") (auto dest: parse_statement_shorter)

declare parse_statements.simps [simp del]

lemma parse_import_statement_shorter:
  assumes "parse_import_statement s = Inr (t, s')"
  shows "length s' < length s"
proof -
  from assms obtain s1 i s2 s3 m s4 where
    a: "literal ''import'' (skip_ws s) = Some s1" and
    b: "INSTRUMENT (skip_ws s1) = Some (i, s2)" and
    c: "literal ''from'' (skip_ws s2) = Some s3" and
    d: "MODULE_NAME (skip_ws s3) = Some (m, s4)" and
    e: "literal '';'' (skip_ws s4) = Some s'"
    by (auto simp: parse_import_statement_def split: option.splits)
  have "length s' \<le> length (skip_ws s4)" using e by (rule literal_le)
  also have "\<dots> \<le> length s4" by (rule skip_ws_le)
  also have "\<dots> \<le> length (skip_ws s3)" using d by (rule MODULE_NAME_le)
  also have "\<dots> \<le> length s3" by (rule skip_ws_le)
  also have "\<dots> \<le> length (skip_ws s2)" using c by (rule literal_le)
  also have "\<dots> \<le> length s2" by (rule skip_ws_le)
  also have "\<dots> < length (skip_ws s1)" using b by (rule INSTRUMENT_less)
  also have "\<dots> \<le> length s1" by (rule skip_ws_le)
  also have "\<dots> \<le> length (skip_ws s)" using a by (rule literal_le)
  also have "\<dots> \<le> length s" by (rule skip_ws_le)
  finally show ?thesis .
qed

termination parse_imports
  by (relation "measure length") (auto dest: parse_import_statement_shorter)

declare parse_imports.simps [simp del]

lemma parse_statements_shorter:
  "parse_statements s = Inr (sts, r) \<Longrightarrow> length r \<le> length s"
proof (induction s arbitrary: sts r rule: parse_statements.induct)
  case (1 s)
  show ?case
  proof (cases "literal ''}'' (skip_ws s)")
    case (Some r')
    with "1.prems" have "r = r'" by (simp add: parse_statements.simps [of s])
    with Some literal_le [of "''}''" "skip_ws s" r'] skip_ws_le [of s] show ?thesis by simp
  next
    case None
    with "1.prems" obtain st s' sts' where
      p: "parse_statement s = Inr (st, s')" and q: "parse_statements s' = Inr (sts', r)"
      by (auto simp: parse_statements.simps [of s] split: sum.splits)
    from "1.IH" [OF None p refl q] parse_statement_shorter [OF p] show ?thesis by simp
  qed
qed

lemma parse_pattern_block_shorter:
  assumes "parse_pattern_block s = Inr (b, s')"
  shows "length s' < length s"
proof -
  from assms obtain bt' s1 s2 sts where
    a: "BLOCK_TYPE (skip_ws s) = Some (bt', s1)" and
    b: "literal ''{'' (skip_ws s1) = Some s2" and
    c: "parse_statements s2 = Inr (sts, s')"
    by (auto simp: parse_pattern_block_def split: option.splits sum.splits)
  have "length s' \<le> length s2" using c by (rule parse_statements_shorter)
  also have "\<dots> \<le> length (skip_ws s1)" using b by (rule literal_le)
  also have "\<dots> \<le> length s1" by (rule skip_ws_le)
  also have "\<dots> < length (skip_ws s)" using a by (rule BLOCK_TYPE_less)
  also have "\<dots> \<le> length s" by (rule skip_ws_le)
  finally show ?thesis .
qed

termination parse_pattern_blocks
  by (relation "measure length") (auto dest: parse_pattern_block_shorter)

declare parse_pattern_blocks.simps [simp del]

section \<open>Evaluation on concrete inputs\<close>

text \<open>
  The definitions compute: on a concrete text or state the simplifier unfolds them.  The
  equations of the three loops of the parser are used only where they are named.
\<close>

lemmas char_class_defs = is_ws_def is_lower_def is_upper_def is_digit_def is_alpha_def
  is_ident_start_def is_ident_char_def is_pitch_letter_def is_accidental_def

lemmas parser_defs = skip_ws_def literal_def INSTRUMENT_def NOTE_def TIMESTAMP_def BLOCK_TYPE_def
  MODULE_NAME_def unexpected_def parse_statement_def parse_statements.simps parse_pattern_block_def
  parse_import_statement_def parse_imports.simps parse_pattern_blocks.simps pattern_parser_def

lemmas transformer_defs = digit_value_def digits_value_def float_def statement_def import_statement_def
  pattern_block_def start_def transform_def

lemmas endpoint_defs = parse_pattern_def NoteEvent_model_def Pattern_model_def ParseResponse_model_def
  api_parse_def

lemmas render_defs = is_inf_def JSONResponse_render_def post_api_parse_def

lemmas engine_defs = stopPattern_def playPattern_def pausePattern_def Transport_start_def
  Transport_stop_def Transport_pause_def new_Part_def initAudio_def initial_engine_def
  octave_def isNote_def parseInt_is_number_def is_digit_def

lemmas callback_defs = part_callback_def call_triggerAttackRelease_def get_instrument_def
  own_value_def truthy_def Object_prototype_def

lemmas handler_defs = handlePlay_def handleStop_def handlePause_def

lemmas example_defs = example_pattern_def ready_engine_def playing_engine_def playing_store_def

section \<open>The parser, the transformer and the response model\<close>

lemma parse_pattern_block_is_block:
  "parse_pattern_block s = Inr (t, r) \<Longrightarrow> \<exists>b ss. t = Pattern_block b ss"
  by (auto simp: parse_pattern_block_def split: option.splits sum.splits)

lemma parse_pattern_blocks_first:
  assumes "parse_pattern_blocks s = Inr bs"
  shows "\<exists>b ss rest. bs = Pattern_block b ss # rest"
proof -
  from assms obtain t r where t: "parse_pattern_block s = Inr (t, r)"
    by (auto simp: parse_pattern_blocks.simps [of s] split: sum.splits)
  with assms obtain rest where "bs = t # rest"
    by (auto simp: parse_pattern_blocks.simps [of s] split: sum.splits if_splits)
  with parse_pattern_block_is_block [OF t] show ?thesis by blast
qed

lemma pattern_parser_has_block:
  assumes "pattern_parser code = Inr tree"
  shows "\<exists>b ss. Pattern_block b ss \<in> set tree"
proof -
  from assms obtain imps bs s' where "parse_pattern_blocks s' = Inr bs" and tree: "tree = imps @ bs"
    by (auto simp: pattern_parser_def split: sum.splits)
  from parse_pattern_blocks_first [OF this(1)] obtain b ss rest
    where "bs = Pattern_block b ss # rest" by blast
  with tree have "Pattern_block b ss \<in> set tree" by simp
  then show ?thesis by blast
qed

lemma update_entry:
  "(k', v') \<in> set (AList.update k v al) \<Longrightarrow> (k', v') = (k, v) \<or> (k', v') \<in> set al"
  by (induction al) (auto split: if_splits)

lemma start_loop_keeps_key:
  "b \<in> fst ` set (patterns r) \<Longrightarrow> b \<in> fst ` set (patterns (start_loop items r))"
proof (induction items r rule: start_loop.induct)
  case (3 b' sts items result)
  then show ?case by (simp add: dom_update)
qed simp_all

lemma start_loop_has_block:
  "Block_item b sts \<in> set items \<Longrightarrow> b \<in> fst ` set (patterns (start_loop items r))"
proof (induction items r rule: start_loop.induct)
  case (3 b' sts' items result)
  show ?case
  proof (cases "b = b'")
    case True
    then show ?thesis by (simp add: start_loop_keeps_key dom_update)
  next
    case False
    with "3.prems" have "Block_item b sts \<in> set items" by simp
    then show ?thesis using "3.IH" by simp
  qed
qed simp_all

lemma start_loop_entry:
  "(b, sts) \<in> set (patterns (start_loop items r)) \<Longrightarrow>
     (b, sts) \<in> set (patterns r) \<or> Block_item b sts \<in> set items"
proof (induction items r rule: start_loop.induct)
  case (3 b' sts' items result)
  from "3.IH" [OF "3.prems" [simplified]]
  show ?case by (auto dest: update_entry)
qed simp_all

lemma start_loop_last_block:
  "\<forall>sts'. Block_item b sts' \<notin> set post \<Longrightarrow>
     map_of (patterns (start_loop (pre @ Block_item b sts # post) r)) b = Some sts"
proof (induction pre arbitrary: r)
  case Nil
  have keep: "\<And>r'. \<forall>sts'. Block_item b sts' \<notin> set post \<Longrightarrow>
      map_of (patterns (start_loop post r')) b = map_of (patterns r') b"
  proof -
    fix r' :: "'a pattern_dict"
    show "\<forall>sts'. Block_item b sts' \<notin> set post \<Longrightarrow>
      map_of (patterns (start_loop post r')) b = map_of (patterns r') b"
    proof (induction post r' rule: start_loop.induct)
      case (3 b' sts' items result)
      then have "b' \<noteq> b" by auto
      with 3 show ?case by (simp add: update_conv')
    qed simp_all
  qed
  from Nil show ?case by (simp add: keep update_conv')
next
  case (Cons x pre)
  then show ?case by (cases x) simp_all
qed

lemma map_of_Pattern_model:
  "map_of (patterns (Pattern_model d)) b = map_option (map NoteEvent_model) (map_of (patterns d) b)"
  by (simp add: Pattern_model_def map_of_map)

lemma transform_child_block:
  "transform_child t = Block_item b sts \<longleftrightarrow>
     (\<exists>ss. t = Pattern_block b ss \<and> sts = map statement ss)"
  by (cases t) (auto simp: import_statement_def pattern_block_def)

lemma api_parse_success:
  "pattern_parser code = Inr tree \<Longrightarrow>
     api_parse code =
       \<lparr>success = True, pattern = Some (Pattern_model (transform tree)), error = None\<rparr>"
  by (simp add: api_parse_def parse_pattern_def ParseResponse_model_def)

lemma api_parse_failure:
  "pattern_parser code = Inl e \<Longrightarrow>
     api_parse code = \<lparr>success = False, pattern = None, error = Some e\<rparr>"
  by (simp add: api_parse_def parse_pattern_def ParseResponse_model_def)

lemma adjacent_sorted_iff: "adjacent_sorted es \<longleftrightarrow> sorted (map time es)"
  by (induction es rule: adjacent_sorted.induct) (auto intro: order.trans)

text \<open>
  The function of the endpoint returns one of two shapes on every text, and the
  rendering keeps what it returns when no time of the document is beyond the doubles.
\<close>

lemma api_parse_two_shapes:
  "(success (api_parse code) \<and> pattern (api_parse code) \<noteq> None \<and> error (api_parse code) = None)
   \<or> (\<not> success (api_parse code) \<and> pattern (api_parse code) = None
        \<and> error (api_parse code) \<noteq> None)"
proof (cases "pattern_parser code")
  case (Inl e)
  then show ?thesis by (simp add: api_parse_failure)
next
  case (Inr tree)
  then show ?thesis by (simp add: api_parse_success)
qed

lemma post_api_parse_in_range:
  assumes "\<And>d b es e. pattern (api_parse code) = Some d \<Longrightarrow> (b, es) \<in> set (patterns d) \<Longrightarrow>
             e \<in> set es \<Longrightarrow> \<not> is_inf (time e)"
  shows "post_api_parse code = Inr (api_parse code)"
proof (cases "pattern (api_parse code)")
  case None
  then show ?thesis by (simp add: post_api_parse_def JSONResponse_render_def)
next
  case (Some d)
  with assms have "\<not> list_ex (\<lambda>(b, es). list_ex (\<lambda>e. is_inf (time e)) es) (patterns d)"
    by (fastforce simp: list_ex_iff)
  with Some show ?thesis by (simp add: post_api_parse_def JSONResponse_render_def)
qed

section \<open>The parts and the transport\<close>

text \<open>
  \<^verbatim>\<open>initAudio\<close> does not come to its end: the keys \<^verbatim>\<open>Kick\<close>, \<^verbatim>\<open>Snare\<close> and
  \<^verbatim>\<open>HiHat\<close> of the second sampler are no notes, its constructor throws, and the
  sampler of the guitar and the settings of the transport are not reached.
\<close>

lemma initAudio_throws:
  "initAudio initial_engine =
     (Inl (url_key_error ''Kick''),
      \<lparr>instruments =
         \<lparr>piano = Some (Sampler ''/instruments/piano/''), synth = None, guitar = None\<rparr>,
       eq = \<lparr>low = Some (EQ3 (- 1) 0 0), mid = Some (EQ3 0 0 0), high = Some (EQ3 0 0 (- 1))\<rparr>,
       currentPattern = None,
       patternParts = [],
       Transport =
         \<lparr>state = stopped, position = 0, bpm = 120, loop = False,
          loopStart = Number 0, loopEnd = Number 0\<rparr>\<rparr>)"
  by (simp add: engine_defs)

lemma make_parts_entry:
  "(b, p) \<in> set (make_parts ps acc) \<Longrightarrow>
     (b, p) \<in> set acc \<or> (part_loop p \<and> part_loopEnd p = Number 16)"
proof (induction ps acc rule: make_parts.induct)
  case (2 type ns rest parts)
  from "2.prems" have "(b, p) \<in> set (make_parts rest
      (AList.update type
        ((new_Part (map (\<lambda>note. (time note, note)) ns))
           \<lparr>part_start := Some 0, part_loop := True, part_loopEnd := Number 16\<rparr>)
        parts))"
    by (simp only: make_parts.simps)
  from "2.IH" [OF this] show ?case by (auto dest: update_entry)
qed simp

lemma make_parts_keys:
  "fst ` set (make_parts ps acc) = fst ` set ps \<union> fst ` set acc"
  by (induction ps acc rule: make_parts.induct) (auto simp: dom_update)

lemma playPattern_parts:
  "patternParts (playPattern doc s) = make_parts (patterns doc) []"
  by (simp add: playPattern_def stopPattern_def Let_def)

lemma playPattern_Transport:
  "Transport (playPattern doc s) = (Transport s)\<lparr>state := started, position := 0\<rparr>"
  by (simp add: playPattern_def stopPattern_def Transport_start_def Transport_stop_def Let_def)

lemma pausePattern_holds_position:
  "position (Transport (pausePattern s)) = position (Transport s)
   \<and> (state (Transport s) = started \<longrightarrow> state (Transport (pausePattern s)) = paused)"
  by (simp add: pausePattern_def Transport_pause_def)

lemma fire_without_exception:
  assumes "\<forall>(t, n) \<in> set evs. get_instrument ins (instrument n) \<noteq> Inherited"
  shows "snd (fire ins evs) = None \<and> length (fst (fire ins evs)) = length evs"
  using assms
proof (induction evs)
  case Nil
  show ?case by simp
next
  case (Cons ev evs)
  obtain t n where ev: "ev = (t, n)" by (cases ev)
  with Cons.prems have "get_instrument ins (instrument n) \<noteq> Inherited" by simp
  then obtain e where "part_callback ins t n = Inr e"
    by (cases "get_instrument ins (instrument n)")
      (auto simp: part_callback_def truthy_def call_triggerAttackRelease_def)
  with Cons ev show ?case by (auto split: prod.splits)
qed

section \<open>The compiled document\<close>

text \<open>
  C1. The transformer stores the statements of a block as they come: every track of a
  compiled document is, event by event and in the order of the source, the statement
  list of a block of that type in the program.  Nothing sorts them, so the adjacent
  events of a track are in time order exactly when the statements of that block are
  written in time order.
\<close>

theorem track_in_source_order:
  assumes "pattern_parser code = Inr tree"
  shows "\<exists>d. pattern (api_parse code) = Some d \<and>
           (\<forall>(b, es) \<in> set (patterns d).
              \<exists>sts. Pattern_block b sts \<in> set tree
                \<and> es = map (\<lambda>st. NoteEvent_model (statement st)) sts
                \<and> (adjacent_sorted es \<longleftrightarrow> sorted (map (\<lambda>st. time (statement st)) sts)))"
proof -
  have "\<exists>sts. Pattern_block b sts \<in> set tree
          \<and> es = map (\<lambda>st. NoteEvent_model (statement st)) sts
          \<and> (adjacent_sorted es \<longleftrightarrow> sorted (map (\<lambda>st. time (statement st)) sts))"
    if "(b, es) \<in> set (patterns (Pattern_model (transform tree)))" for b es
  proof -
    from that obtain raw where raw: "(b, raw) \<in> set (patterns (transform tree))"
      and es: "es = map NoteEvent_model raw"
      by (auto simp: Pattern_model_def)
    from raw have "Block_item b raw \<in> set (map transform_child tree)"
      unfolding transform_def start_def by (auto dest: start_loop_entry)
    then obtain t where "t \<in> set tree" and "transform_child t = Block_item b raw"
      by auto
    then obtain ss where ss: "Pattern_block b ss \<in> set tree" and r: "raw = map statement ss"
      by (auto simp: transform_child_block)
    from es r have e: "es = map (\<lambda>st. NoteEvent_model (statement st)) ss" by simp
    have "map time es = map (\<lambda>st. time (statement st)) ss"
      unfolding e by (simp add: NoteEvent_model_def)
    then have "adjacent_sorted es \<longleftrightarrow> sorted (map (\<lambda>st. time (statement st)) ss)"
      by (simp only: adjacent_sorted_iff)
    with ss e show ?thesis by blast
  qed
  with assms show ?thesis by (auto simp: api_parse_success)
qed

text \<open>A block written out of time order, and the track it is stored as.\<close>

theorem track_in_source_order_witness:
  "pattern_parser ''melody { piano G4 2; piano C4 0; piano E4 1; }'' =
     Inr [Pattern_block ''melody''
            [Statement ''piano'' ''G4'' ''2'', Statement ''piano'' ''C4'' ''0'',
             Statement ''piano'' ''E4'' ''1'']]
   \<and> pattern (api_parse ''melody { piano G4 2; piano C4 0; piano E4 1; }'') =
       Some
         \<lparr>imports' = [],
          patterns =
            [(''melody'',
              [\<lparr>instrument = ''piano'', note' = ''G4'', time = 2,
                velocity = 1, duration = 1 / 2\<rparr>,
               \<lparr>instrument = ''piano'', note' = ''C4'', time = 0,
                velocity = 1, duration = 1 / 2\<rparr>,
               \<lparr>instrument = ''piano'', note' = ''E4'', time = 1,
                velocity = 1, duration = 1 / 2\<rparr>])]\<rparr>"
proof -
  have p: "pattern_parser ''melody { piano G4 2; piano C4 0; piano E4 1; }'' =
     Inr [Pattern_block ''melody''
            [Statement ''piano'' ''G4'' ''2'', Statement ''piano'' ''C4'' ''0'',
             Statement ''piano'' ''E4'' ''1'']]"
    by (simp add: parser_defs char_class_defs)
  from track_in_source_order [OF p] obtain d where
    d: "pattern (api_parse ''melody { piano G4 2; piano C4 0; piano E4 1; }'') = Some d"
    and "\<forall>(b, es) \<in> set (patterns d).
           \<exists>sts. Pattern_block b sts \<in> set [Pattern_block ''melody''
                    [Statement ''piano'' ''G4'' ''2'', Statement ''piano'' ''C4'' ''0'',
                     Statement ''piano'' ''E4'' ''1'']]
             \<and> es = map (\<lambda>st. NoteEvent_model (statement st)) sts
             \<and> (adjacent_sorted es \<longleftrightarrow> sorted (map (\<lambda>st. time (statement st)) sts))"
    by blast
  have "api_parse ''melody { piano G4 2; piano C4 0; piano E4 1; }'' =
      \<lparr>success = True,
       pattern = Some
         \<lparr>imports' = [],
          patterns =
            [(''melody'',
              [\<lparr>instrument = ''piano'', note' = ''G4'', time = 2,
                velocity = 1, duration = 1 / 2\<rparr>,
               \<lparr>instrument = ''piano'', note' = ''C4'', time = 0,
                velocity = 1, duration = 1 / 2\<rparr>,
               \<lparr>instrument = ''piano'', note' = ''E4'', time = 1,
                velocity = 1, duration = 1 / 2\<rparr>])]\<rparr>,
       error = None\<rparr>"
    by (simp add: parser_defs char_class_defs transformer_defs endpoint_defs)
  with p d show ?thesis by auto
qed

text \<open>
  The claim of the specification fails on a block whose statements are written out of
  time order: the track keeps the order of the source.
\<close>

theorem unsorted_track:
  "pattern (api_parse ''melody { piano C4 1; piano E4 0; }'') =
     Some \<lparr>imports' = [],
           patterns =
             [(''melody'',
               [\<lparr>instrument = ''piano'', note' = ''C4'', time = 1,
                 velocity = 1, duration = 1 / 2\<rparr>,
                \<lparr>instrument = ''piano'', note' = ''E4'', time = 0,
                 velocity = 1, duration = 1 / 2\<rparr>])]\<rparr>
   \<and> \<not> tracks_sorted
         \<lparr>imports' = [],
          patterns =
            [(''melody'',
              [\<lparr>instrument = ''piano'', note' = ''C4'', time = 1,
                velocity = 1, duration = 1 / 2\<rparr>,
               \<lparr>instrument = ''piano'', note' = ''E4'', time = 0,
                velocity = 1, duration = 1 / 2\<rparr>])]\<rparr>"
  by (simp add: parser_defs char_class_defs transformer_defs endpoint_defs tracks_sorted_def)

text \<open>
  C2. The transformer has no check for a repeated block type and raises no semantic
  error: a program with two blocks of one type compiles, and the later block replaces
  the earlier one.  The track of that type is the statement list of the last block of
  the type, the statements of the earlier block are not in it.
\<close>

theorem later_block_replaces:
  assumes "pattern_parser code =
             Inr (pre @ Pattern_block b sts1 # between @ Pattern_block b sts2 # post)"
    and "\<forall>sts'. Pattern_block b sts' \<notin> set post"
  shows "success (api_parse code) \<and> error (api_parse code) = None
       \<and> (\<exists>d. pattern (api_parse code) = Some d
              \<and> map_of (patterns d) b = Some (map (\<lambda>st. NoteEvent_model (statement st)) sts2))"
proof -
  let ?tree = "pre @ Pattern_block b sts1 # between @ Pattern_block b sts2 # post"
  have no: "\<forall>raw. Block_item b raw \<notin> set (map transform_child post)"
  proof (intro allI notI)
    fix raw
    assume "Block_item b raw \<in> set (map transform_child post)"
    then obtain t where "t \<in> set post" and "transform_child t = Block_item b raw"
      by auto
    with assms(2) show False by (auto simp: transform_child_block)
  qed
  have split: "map transform_child ?tree =
          (map transform_child pre @ transform_child (Pattern_block b sts1) # map transform_child between)
            @ Block_item b (map statement sts2) # map transform_child post"
    by (simp add: pattern_block_def)
  have "map_of (patterns (transform ?tree)) b = Some (map statement sts2)"
    unfolding transform_def start_def split using no by (rule start_loop_last_block)
  then have "map_of (patterns (Pattern_model (transform ?tree))) b =
               Some (map (\<lambda>st. NoteEvent_model (statement st)) sts2)"
    by (simp add: map_of_Pattern_model)
  with assms(1) show ?thesis by (simp add: api_parse_success)
qed

text \<open>
  Two rhythm blocks around a melody block: the second rhythm block is the track, at the
  place the first one took in the mapping.
\<close>

theorem later_block_replaces_witness:
  "pattern_parser ''rhythm { synth Kick 0; } melody { piano C4 0; } rhythm { synth Snare 1; }'' =
     Inr ([] @ Pattern_block ''rhythm'' [Statement ''synth'' ''Kick'' ''0'']
            # [Pattern_block ''melody'' [Statement ''piano'' ''C4'' ''0'']]
            @ Pattern_block ''rhythm'' [Statement ''synth'' ''Snare'' ''1''] # [])
   \<and> api_parse ''rhythm { synth Kick 0; } melody { piano C4 0; } rhythm { synth Snare 1; }'' =
       \<lparr>success = True,
        pattern = Some
          \<lparr>imports' = [],
           patterns =
             [(''rhythm'',
               [\<lparr>instrument = ''synth'', note' = ''Snare'', time = 1,
                 velocity = 1, duration = 1 / 2\<rparr>]),
              (''melody'',
               [\<lparr>instrument = ''piano'', note' = ''C4'', time = 0,
                 velocity = 1, duration = 1 / 2\<rparr>])]\<rparr>,
        error = None\<rparr>"
proof -
  have p: "pattern_parser
      ''rhythm { synth Kick 0; } melody { piano C4 0; } rhythm { synth Snare 1; }'' =
     Inr ([] @ Pattern_block ''rhythm'' [Statement ''synth'' ''Kick'' ''0'']
            # [Pattern_block ''melody'' [Statement ''piano'' ''C4'' ''0'']]
            @ Pattern_block ''rhythm'' [Statement ''synth'' ''Snare'' ''1''] # [])"
    by (simp add: parser_defs char_class_defs)
  have q: "\<forall>sts'. Pattern_block ''rhythm'' sts' \<notin> set []" by simp
  have r: "api_parse
      ''rhythm { synth Kick 0; } melody { piano C4 0; } rhythm { synth Snare 1; }'' =
       \<lparr>success = True,
        pattern = Some
          \<lparr>imports' = [],
           patterns =
             [(''rhythm'',
               [\<lparr>instrument = ''synth'', note' = ''Snare'', time = 1,
                 velocity = 1, duration = 1 / 2\<rparr>]),
              (''melody'',
               [\<lparr>instrument = ''piano'', note' = ''C4'', time = 0,
                 velocity = 1, duration = 1 / 2\<rparr>])]\<rparr>,
        error = None\<rparr>"
    by (simp add: parser_defs char_class_defs transformer_defs endpoint_defs)
  from later_block_replaces [OF p q] p r show ?thesis by simp
qed

text \<open>
  The claim of the specification fails on two melody blocks: the program compiles, with
  no error, and the melody track is the second block.
\<close>

theorem duplicate_block_accepted:
  "api_parse ''melody { piano C4 0; } melody { piano E4 1; }'' =
     \<lparr>success = True,
      pattern = Some
        \<lparr>imports' = [],
         patterns =
           [(''melody'',
             [\<lparr>instrument = ''piano'', note' = ''E4'', time = 1,
               velocity = 1, duration = 1 / 2\<rparr>])]\<rparr>,
      error = None\<rparr>"
  by (simp add: parser_defs char_class_defs transformer_defs endpoint_defs)

text \<open>
  C3. The grammar is \<^verbatim>\<open>start: import_statement* pattern_block+\<close>: a program needs a
  block.  So whenever the endpoint reports success, the document it returns has a
  non-empty patterns mapping; a text with no block (the empty text, or imports alone)
  is rejected.
\<close>

theorem success_has_block:
  assumes "success (api_parse code)"
  shows "\<exists>d. pattern (api_parse code) = Some d \<and> patterns d \<noteq> []"
proof (cases "pattern_parser code")
  case (Inl e)
  with assms show ?thesis by (simp add: api_parse_failure)
next
  case (Inr tree)
  from pattern_parser_has_block [OF Inr] obtain b ss where "Pattern_block b ss \<in> set tree"
    by blast
  then have "transform_child (Pattern_block b ss) \<in> transform_child ` set tree"
    by (rule imageI)
  then have "Block_item b (map statement ss) \<in> set (map transform_child tree)"
    by (simp add: pattern_block_def)
  then have "b \<in> fst ` set (patterns (transform tree))"
    unfolding transform_def start_def by (rule start_loop_has_block)
  then have "patterns (transform tree) \<noteq> []" by auto
  then have "patterns (Pattern_model (transform tree)) \<noteq> []"
    by (simp add: Pattern_model_def)
  with Inr show ?thesis by (simp add: api_parse_success)
qed

text \<open>A program with one empty block compiles, and its mapping has the block.\<close>

theorem success_has_block_witness:
  "success (api_parse ''harmony { }'')
   \<and> pattern (api_parse ''harmony { }'') = Some \<lparr>imports' = [], patterns = [(''harmony'', [])]\<rparr>
   \<and> patterns \<lparr>imports' = [], patterns = [(''harmony'', [] :: NoteEvent list)]\<rparr> \<noteq> []"
proof -
  have ok: "api_parse ''harmony { }'' =
      \<lparr>success = True, pattern = Some \<lparr>imports' = [], patterns = [(''harmony'', [])]\<rparr>,
       error = None\<rparr>"
    by (simp add: parser_defs char_class_defs transformer_defs endpoint_defs)
  then have "success (api_parse ''harmony { }'')" by simp
  from success_has_block [OF this] ok show ?thesis by simp
qed

text \<open>
  The empty text does not compile, and neither does a text of imports alone: the parser
  reaches the end of the text while a block is still expected.
\<close>

theorem no_block_rejected:
  "api_parse '''' = \<lparr>success = False, pattern = None, error = Some UnexpectedEOF\<rparr>
   \<and> api_parse ''import piano from \"pianoset\";'' =
       \<lparr>success = False, pattern = None, error = Some UnexpectedEOF\<rparr>"
  by (simp add: parser_defs char_class_defs transformer_defs endpoint_defs)

text \<open>
  C4. Every event of a compiled program carries the defaults of the \<^verbatim>\<open>NoteEvent\<close>
  model, velocity 1.0 and duration 0.5, since a statement has no slot for them; and
  the program \<^verbatim>\<open>melody { piano C4 0; piano E4 0.5; piano G4 1.0; }\<close> compiles to a
  melody track of three events, each with velocity 1.0 and duration 0.5.
\<close>

theorem note_event_defaults:
  "(pattern (api_parse code) = Some d \<longrightarrow> (b, es) \<in> set (patterns d) \<longrightarrow> e \<in> set es \<longrightarrow>
      velocity e = 1 \<and> duration e = 1 / 2)
   \<and> api_parse ''melody { piano C4 0; piano E4 0.5; piano G4 1.0; }'' =
       \<lparr>success = True,
        pattern = Some
          \<lparr>imports' = [],
           patterns =
             [(''melody'',
               [\<lparr>instrument = ''piano'', note' = ''C4'', time = 0,
                 velocity = 1, duration = 1 / 2\<rparr>,
                \<lparr>instrument = ''piano'', note' = ''E4'', time = 1 / 2,
                 velocity = 1, duration = 1 / 2\<rparr>,
                \<lparr>instrument = ''piano'', note' = ''G4'', time = 1,
                 velocity = 1, duration = 1 / 2\<rparr>])]\<rparr>,
        error = None\<rparr>"
proof
  show "pattern (api_parse code) = Some d \<longrightarrow> (b, es) \<in> set (patterns d) \<longrightarrow> e \<in> set es \<longrightarrow>
      velocity e = 1 \<and> duration e = 1 / 2"
  proof (intro impI)
    assume d: "pattern (api_parse code) = Some d" and es: "(b, es) \<in> set (patterns d)"
      and e: "e \<in> set es"
    from d obtain raw where "d = Pattern_model raw"
      by (auto simp: api_parse_def ParseResponse_model_def)
    with es obtain sts where "es = map NoteEvent_model sts"
      by (auto simp: Pattern_model_def)
    with e obtain x where "e = NoteEvent_model x" by auto
    then show "velocity e = 1 \<and> duration e = 1 / 2"
      by (simp add: NoteEvent_model_def)
  qed
next
  show "api_parse ''melody { piano C4 0; piano E4 0.5; piano G4 1.0; }'' =
       \<lparr>success = True,
        pattern = Some
          \<lparr>imports' = [],
           patterns =
             [(''melody'',
               [\<lparr>instrument = ''piano'', note' = ''C4'', time = 0,
                 velocity = 1, duration = 1 / 2\<rparr>,
                \<lparr>instrument = ''piano'', note' = ''E4'', time = 1 / 2,
                 velocity = 1, duration = 1 / 2\<rparr>,
                \<lparr>instrument = ''piano'', note' = ''G4'', time = 1,
                 velocity = 1, duration = 1 / 2\<rparr>])]\<rparr>,
        error = None\<rparr>"
    by (simp add: parser_defs char_class_defs transformer_defs endpoint_defs)
qed

text \<open>
  The statement at the default pattern of the editor's first block, and at its second
  event.
\<close>

theorem note_event_defaults_witness:
  "pattern (api_parse ''melody { piano C4 0; piano E4 0.5; piano G4 1.0; }'') =
     Some \<lparr>imports' = [],
           patterns =
             [(''melody'',
               [\<lparr>instrument = ''piano'', note' = ''C4'', time = 0,
                 velocity = 1, duration = 1 / 2\<rparr>,
                \<lparr>instrument = ''piano'', note' = ''E4'', time = 1 / 2,
                 velocity = 1, duration = 1 / 2\<rparr>,
                \<lparr>instrument = ''piano'', note' = ''G4'', time = 1,
                 velocity = 1, duration = 1 / 2\<rparr>])]\<rparr>
   \<and> velocity \<lparr>instrument = ''piano'', note' = ''E4'', time = 1 / 2,
                 velocity = 1, duration = 1 / 2\<rparr> = (1 :: rat)
   \<and> duration \<lparr>instrument = ''piano'', note' = ''E4'', time = 1 / 2,
                 velocity = 1, duration = 1 / 2\<rparr> = (1 / 2 :: rat)"
  using note_event_defaults
    [of "''melody { piano C4 0; piano E4 0.5; piano G4 1.0; }''"
        "\<lparr>imports' = [],
           patterns =
             [(''melody'',
               [\<lparr>instrument = ''piano'', note' = ''C4'', time = 0,
                 velocity = 1, duration = 1 / 2\<rparr>,
                \<lparr>instrument = ''piano'', note' = ''E4'', time = 1 / 2,
                 velocity = 1, duration = 1 / 2\<rparr>,
                \<lparr>instrument = ''piano'', note' = ''G4'', time = 1,
                 velocity = 1, duration = 1 / 2\<rparr>])]\<rparr>"
        "''melody''"
        "[\<lparr>instrument = ''piano'', note' = ''C4'', time = 0,
                 velocity = 1, duration = 1 / 2\<rparr>,
                \<lparr>instrument = ''piano'', note' = ''E4'', time = 1 / 2,
                 velocity = 1, duration = 1 / 2\<rparr>,
                \<lparr>instrument = ''piano'', note' = ''G4'', time = 1,
                 velocity = 1, duration = 1 / 2\<rparr>]"
        "\<lparr>instrument = ''piano'', note' = ''E4'', time = 1 / 2,
                 velocity = 1, duration = 1 / 2\<rparr>"]
  by simp

section \<open>Playback\<close>

text \<open>
  C5. The loop length does not come from the document.  \<^verbatim>\<open>playPattern\<close> makes one
  part for every track of the document and gives every part the loop end 16 with
  looping switched on, whatever the times and durations of its events: the fixed
  length is used for every document, not only for an empty one.
\<close>

theorem loop_length_fixed:
  "fst ` set (patternParts (playPattern doc s)) = fst ` set (patterns doc)
   \<and> (\<forall>(b, p) \<in> set (patternParts (playPattern doc s)).
         part_loop p \<and> part_loopEnd p = Number 16)"
proof -
  have keys: "fst ` set (patternParts (playPattern doc s)) = fst ` set (patterns doc)"
    by (simp add: playPattern_parts make_parts_keys)
  have parts: "\<forall>(b, p) \<in> set (patternParts (playPattern doc s)).
         part_loop p \<and> part_loopEnd p = Number 16"
    unfolding playPattern_parts by (auto dest: make_parts_entry)
  from keys parts show ?thesis by blast
qed

text \<open>The example document has one track, and its part loops with the loop end 16.\<close>

theorem loop_length_fixed_witness:
  "patternParts (playPattern example_pattern ready_engine) =
     [(''melody'',
       \<lparr>part_events =
          [(0, \<lparr>instrument = ''piano'', note' = ''C4'', time = 0,
                velocity = 1, duration = 1 / 2\<rparr>),
           (1 / 2, \<lparr>instrument = ''piano'', note' = ''E4'', time = 1 / 2,
                velocity = 1, duration = 1 / 2\<rparr>),
           (1, \<lparr>instrument = ''piano'', note' = ''G4'', time = 1,
                velocity = 1, duration = 1 / 2\<rparr>)],
        part_start = Some 0, part_loop = True, part_loopEnd = Number 16\<rparr>)]"
  using loop_length_fixed [of example_pattern ready_engine]
  by (simp add: engine_defs example_defs Let_def)

text \<open>
  The claim of the specification fails on the example document: the maximum of
  \<open>time + duration\<close> is 1.5 beats, the loop end of its part is 16.
\<close>

theorem loop_length_not_from_events:
  "spec_loop_length example_pattern = 3 / 2
   \<and> map fst (patternParts (playPattern example_pattern ready_engine)) = [''melody'']
   \<and> map (part_loopEnd \<circ> snd) (patternParts (playPattern example_pattern ready_engine)) =
       [Number 16]"
  by (simp add: spec_loop_length_def engine_defs example_defs Let_def)

text \<open>
  C6. Starting from the stopped state begins at position 0, and \<^verbatim>\<open>pausePattern\<close>
  holds the position.  Resuming does not: \<^verbatim>\<open>handlePlay\<close> calls \<^verbatim>\<open>playPattern\<close>,
  which begins with \<^verbatim>\<open>stopPattern\<close>.  On the engine that plays the example and is
  paused at position 3, the pause holds the transport at 3; the next play starts the
  transport at position 0, not at the position it was paused at.
\<close>

theorem resume_restarts_at_zero:
  "state (Transport (snd (handlePause (playing_store, playing_engine 3)))) = paused
   \<and> position (Transport (snd (handlePause (playing_store, playing_engine 3)))) = 3
   \<and> isPlaying (fst (handlePause (playing_store, playing_engine 3))) = False
   \<and> state (Transport (snd (handlePlay (handlePause (playing_store, playing_engine 3))))) =
       started
   \<and> position (Transport (snd (handlePlay (handlePause (playing_store, playing_engine 3))))) = 0"
  by (simp add: handler_defs example_defs engine_defs Let_def)

text \<open>
  C7. An event whose instrument reads as \<^verbatim>\<open>undefined\<close> or \<^verbatim>\<open>null\<close> is logged and
  the events after it fire (\<open>fire_without_exception\<close>, and the last equation below).
  An instrument name that the table inherits from its prototype is not in the table
  either, but the guard of the callback does not fire for it.  On the program
  \<^verbatim>\<open>melody { constructor C4 0; piano E4 0; }\<close>, which compiles and of whose two events
  \<^verbatim>\<open>playPattern\<close> makes a part, the callback calls a method the inherited member does
  not have and throws.  Nothing catches the exception (\<^verbatim>\<open>playNote\<close> wraps the same
  call in \<^verbatim>\<open>try\<close>), no error is logged by the engine, and the event for the piano,
  due at the same time, is not reached.
\<close>

theorem inherited_name_throws:
  "api_parse ''melody { constructor C4 0; piano E4 0; }'' =
     \<lparr>success = True,
      pattern = Some
        \<lparr>imports' = [],
         patterns =
           [(''melody'',
             [\<lparr>instrument = ''constructor'', note' = ''C4'', time = 0,
               velocity = 1, duration = 1 / 2\<rparr>,
              \<lparr>instrument = ''piano'', note' = ''E4'', time = 0,
               velocity = 1, duration = 1 / 2\<rparr>])]\<rparr>,
      error = None\<rparr>
   \<and> map (part_events \<circ> snd)
        (patternParts
          (playPattern
            \<lparr>imports' = [],
             patterns =
               [(''melody'',
                 [\<lparr>instrument = ''constructor'', note' = ''C4'', time = 0,
                   velocity = 1, duration = 1 / 2\<rparr>,
                  \<lparr>instrument = ''piano'', note' = ''E4'', time = 0,
                   velocity = 1, duration = 1 / 2\<rparr>])]\<rparr>
            ready_engine)) =
       [[(0, \<lparr>instrument = ''constructor'', note' = ''C4'', time = 0,
               velocity = 1, duration = 1 / 2\<rparr>),
         (0, \<lparr>instrument = ''piano'', note' = ''E4'', time = 0,
               velocity = 1, duration = 1 / 2\<rparr>)]]
   \<and> part_callback (instruments ready_engine) 0
        \<lparr>instrument = ''constructor'', note' = ''C4'', time = 0,
         velocity = 1, duration = 1 / 2\<rparr> = Inl TypeError
   \<and> fire (instruments ready_engine)
        [(0, \<lparr>instrument = ''constructor'', note' = ''C4'', time = 0,
               velocity = 1, duration = 1 / 2\<rparr>),
         (0, \<lparr>instrument = ''piano'', note' = ''E4'', time = 0,
               velocity = 1, duration = 1 / 2\<rparr>)] = ([], Some TypeError)
   \<and> fire (instruments ready_engine)
        [(0, \<lparr>instrument = ''drums'', note' = ''C4'', time = 0,
               velocity = 1, duration = 1 / 2\<rparr>),
         (0, \<lparr>instrument = ''piano'', note' = ''E4'', time = 0,
               velocity = 1, duration = 1 / 2\<rparr>)] =
       ([console_error ''Instrument drums not found'',
         triggerAttackRelease (Sampler ''/instruments/piano/'') ''E4'' (Number (1 / 2))
           (Some 0) (Some 1)], None)"
proof (intro conjI)
  show "api_parse ''melody { constructor C4 0; piano E4 0; }'' =
     \<lparr>success = True,
      pattern = Some
        \<lparr>imports' = [],
         patterns =
           [(''melody'',
             [\<lparr>instrument = ''constructor'', note' = ''C4'', time = 0,
               velocity = 1, duration = 1 / 2\<rparr>,
              \<lparr>instrument = ''piano'', note' = ''E4'', time = 0,
               velocity = 1, duration = 1 / 2\<rparr>])]\<rparr>,
      error = None\<rparr>"
    by (simp add: parser_defs char_class_defs transformer_defs endpoint_defs)
qed (simp_all add: callback_defs example_defs engine_defs Let_def)

section \<open>The endpoint and the engine as they are written\<close>

text \<open>
  C8. The function of the endpoint catches every exception and returns one of the two
  shapes (\<open>api_parse_two_shapes\<close>), and a caller receives that answer whenever the
  times of the document are in the range of the doubles (\<open>post_api_parse_in_range\<close>).
  It is not so for every input.  A timestamp of 310 digits is a valid lexeme;
  \<^verbatim>\<open>float()\<close> reads it as \<^verbatim>\<open>inf\<close> without raising, the function returns the shape
  of a success, and the rendering of that answer, outside the \<^verbatim>\<open>try\<close> block,
  raises: the caller gets an internal server error, neither of the two shapes.
\<close>

theorem overflowing_timestamp_raises:
  "api_parse
     (''melody { piano C4 1'' @
      ''0000000000000000000000000000000000000000000000000000000000000000000000000000000000000000000000000000000'' @
      ''0000000000000000000000000000000000000000000000000000000000000000000000000000000000000000000000000000000'' @
      ''0000000000000000000000000000000000000000000000000000000000000000000000000000000000000000000000000000000'' @ ''; }'') =
     \<lparr>success = True,
      pattern = Some
        \<lparr>imports' = [],
         patterns =
           [(''melody'',
             [\<lparr>instrument = ''piano'', note' = ''C4'', time = 10 ^ 309,
               velocity = 1, duration = 1 / 2\<rparr>])]\<rparr>,
      error = None\<rparr>
   \<and> is_inf (10 ^ 309)
   \<and> post_api_parse
     (''melody { piano C4 1'' @
      ''0000000000000000000000000000000000000000000000000000000000000000000000000000000000000000000000000000000'' @
      ''0000000000000000000000000000000000000000000000000000000000000000000000000000000000000000000000000000000'' @
      ''0000000000000000000000000000000000000000000000000000000000000000000000000000000000000000000000000000000'' @ ''; }'') = Inl ValueError"
proof -
  have p: "api_parse
     (''melody { piano C4 1'' @
      ''0000000000000000000000000000000000000000000000000000000000000000000000000000000000000000000000000000000'' @
      ''0000000000000000000000000000000000000000000000000000000000000000000000000000000000000000000000000000000'' @
      ''0000000000000000000000000000000000000000000000000000000000000000000000000000000000000000000000000000000'' @ ''; }'') =
     \<lparr>success = True,
      pattern = Some
        \<lparr>imports' = [],
         patterns =
           [(''melody'',
             [\<lparr>instrument = ''piano'', note' = ''C4'', time = 10 ^ 309,
               velocity = 1, duration = 1 / 2\<rparr>])]\<rparr>,
      error = None\<rparr>"
    by (simp add: parser_defs char_class_defs transformer_defs endpoint_defs)
  have i: "is_inf (10 ^ 309)"
    by (simp add: is_inf_def)
  from p i show ?thesis
    by (simp add: post_api_parse_def JSONResponse_render_def)
qed

text \<open>
  C9. After \<^verbatim>\<open>stopPattern\<close> the transport is stopped at position 0, the map of parts
  is empty and there is no current pattern, whatever the state was; a second call
  changes nothing.
\<close>

theorem stopPattern_post_state:
  "state (Transport (stopPattern s)) = stopped
   \<and> position (Transport (stopPattern s)) = 0
   \<and> patternParts (stopPattern s) = []
   \<and> currentPattern (stopPattern s) = None
   \<and> stopPattern (stopPattern s) = stopPattern s"
  by (simp add: stopPattern_def Transport_stop_def)

text \<open>
  C10. \<^verbatim>\<open>playNote\<close> with a name that is not a key of the instrument table returns
  without throwing, calls no sampler and leaves the engine as it was; all it does is
  log one error.  For a name that the table inherits from its prototype the guard does
  not fire, but the call of the missing method throws inside the \<^verbatim>\<open>try\<close> block and
  is logged there.
\<close>

theorem playNote_unknown_instrument:
  assumes "instrumentName \<notin> {''piano'', ''synth'', ''guitar''}"
  shows "snd (playNote instrumentName note s) = s
       \<and> (\<exists>message. fst (playNote instrumentName note s) = [console_error message])"
proof -
  from assms have "get_instrument (instruments s) instrumentName = Inherited
      \<or> get_instrument (instruments s) instrumentName = Undefined"
    by (simp add: get_instrument_def)
  then show ?thesis
    by (auto simp: playNote_def truthy_def call_triggerAttackRelease_def)
qed

text \<open>A name that is nowhere, and a name of the prototype.\<close>

theorem playNote_unknown_instrument_witness:
  "''drums'' \<notin> {''piano'', ''synth'', ''guitar''}
   \<and> playNote ''drums'' ''C4'' ready_engine =
       ([console_error ''Instrument drums not found''], ready_engine)
   \<and> ''toString'' \<notin> {''piano'', ''synth'', ''guitar''}
   \<and> playNote ''toString'' ''C4'' ready_engine =
       ([console_error ''Error playing note C4 on toString:''], ready_engine)"
  using playNote_unknown_instrument [of "''drums''" "''C4''" ready_engine]
    playNote_unknown_instrument [of "''toString''" "''C4''" ready_engine]
  by (simp add: playNote_def callback_defs example_defs engine_defs)

end
